theory Spec2Isabelle
  imports Main "HOL-Library.Sublist"
begin

section \<open>Strings: the JavaScript primitives used by bot.js\<close>

text \<open>
  Strings are \<open>char list\<close>; the commands, markers and separators of bot.js are all ASCII.
  \<open>toLowerCase\<close> is modelled on the ASCII letters.
\<close>

definition nl :: string where
  "nl = [CHR 0x0A]"

definition toLowerChar :: "char \<Rightarrow> char" where
  "toLowerChar c =
     (case map_of (zip ''ABCDEFGHIJKLMNOPQRSTUVWXYZ'' ''abcdefghijklmnopqrstuvwxyz'') c of
        Some d \<Rightarrow> d
      | None \<Rightarrow> c)"

definition toLowerCase :: "string \<Rightarrow> string" where
  "toLowerCase s = map toLowerChar s"

text \<open>\<open>s.startsWith(p)\<close>.\<close>

definition startsWith :: "string \<Rightarrow> string \<Rightarrow> bool" where
  "startsWith s p = (take (length p) s = p)"

text \<open>
  \<open>s.split(c)\<close> for a one-character separator: the pieces between the occurrences of
  \<open>c\<close>, empty pieces included; the result is never empty (\<open>''.split(' ')\<close> is \<open>['']\<close>).
\<close>

fun splitFrom :: "char \<Rightarrow> string \<Rightarrow> string \<Rightarrow> string list" where
  "splitFrom c piece [] = [piece]"
| "splitFrom c piece (x # xs) =
     (if x = c then piece # splitFrom c [] xs else splitFrom c (piece @ [x]) xs)"

definition js_split :: "char \<Rightarrow> string \<Rightarrow> string list" where
  "js_split c s = splitFrom c [] s"

text \<open>\<open>s.substring(1)\<close>.\<close>

definition substring1 :: "string \<Rightarrow> string" where
  "substring1 s = drop 1 s"

text \<open>Template-literal printing of a non-negative integer (\<open>Date.now()\<close>, \<open>Set.size\<close>).\<close>

definition digit :: "nat \<Rightarrow> char" where
  "digit d = ''0123456789'' ! d"

fun string_of_nat :: "nat \<Rightarrow> string" where
  "string_of_nat n =
     (if n < 10 then [digit n]
      else string_of_nat (n div 10) @ [digit (n mod 10)])"

declare string_of_nat.simps [simp del]

text \<open>\<open>xs.pop()\<close> read as a value: the last element of the array.\<close>

definition pop :: "string list \<Rightarrow> string" where
  "pop xs = last xs"

subsection \<open>The match \<open>/filename="?(.+)"?/\<close> on the content-disposition header\<close>

text \<open>
  \<open>.\<close> matches every character but a line terminator (line feed and carriage
  return, the strings being ASCII). At the leftmost occurrence of
  \<open>filename=\<close> that can be completed, the optional quote is consumed when one more
  character follows it, the greedy group takes the rest of the line (a closing quote
  included) and the final optional quote matches nothing.
\<close>

definition isLineTerminator :: "char \<Rightarrow> bool" where
  "isLineTerminator c = (c = CHR 0x0A \<or> c = CHR 0x0D)"

definition restOfLine :: "string \<Rightarrow> string" where
  "restOfLine s = takeWhile (\<lambda>c. \<not> isLineTerminator c) s"

definition captureFilename :: "string \<Rightarrow> string option" where
  "captureFilename r =
     (if startsWith r [CHR 0x22] \<and> restOfLine (tl r) \<noteq> [] then Some (restOfLine (tl r))
      else if restOfLine r \<noteq> [] then Some (restOfLine r)
      else None)"

fun filenameMatch :: "string \<Rightarrow> string option" where
  "filenameMatch [] = None"
| "filenameMatch (c # cs) =
     (if startsWith (c # cs) ''filename='' then
        (case captureFilename (drop 9 (c # cs)) of
           Some f \<Rightarrow> Some f
         | None \<Rightarrow> filenameMatch cs)
      else filenameMatch cs)"

subsection \<open>\<open>path.join\<close> (POSIX)\<close>

text \<open>
  \<open>path.join(a, b)\<close> joins the non-empty arguments with \<open>/\<close> and normalises the
  result: empty and \<open>.\<close> segments vanish, \<open>..\<close> removes the segment before it (or
  stays, in a relative path with nothing left to remove), a trailing separator is kept.
\<close>

fun normalizeSegments :: "bool \<Rightarrow> string list \<Rightarrow> string list \<Rightarrow> string list" where
  "normalizeSegments allowAboveRoot res [] = res"
| "normalizeSegments allowAboveRoot res (g # gs) =
     (if g = [] \<or> g = ''.'' then normalizeSegments allowAboveRoot res gs
      else if g = ''..'' then
        (if res \<noteq> [] \<and> last res \<noteq> ''..''
           then normalizeSegments allowAboveRoot (butlast res) gs
         else if allowAboveRoot then normalizeSegments allowAboveRoot (res @ [''..'']) gs
         else normalizeSegments allowAboveRoot res gs)
      else normalizeSegments allowAboveRoot (res @ [g]) gs)"

fun joinWith :: "string \<Rightarrow> string list \<Rightarrow> string" where
  "joinWith sep [] = []"
| "joinWith sep [x] = x"
| "joinWith sep (x # y # ys) = x @ sep @ joinWith sep (y # ys)"

definition normalize :: "string \<Rightarrow> string" where
  "normalize p =
     (if p = [] then ''.''
      else
        let isAbsolute = (hd p = CHR ''/'');
            trailingSeparator = (last p = CHR ''/'');
            q = joinWith ''/'' (normalizeSegments (\<not> isAbsolute) [] (js_split CHR ''/'' p))
        in if q = [] then (if isAbsolute then ''/'' else if trailingSeparator then ''./'' else ''.'')
           else (if isAbsolute then ''/'' else []) @ q @ (if trailingSeparator then ''/'' else []))"

definition path_join :: "string \<Rightarrow> string \<Rightarrow> string" where
  "path_join a b =
     (if a = [] \<and> b = [] then ''.''
      else if b = [] then normalize a
      else if a = [] then normalize b
      else normalize (a @ ''/'' @ b))"

section \<open>The bot's state and its collaborators\<close>

text \<open>
  The module-level state of bot.js is the allow-list \<open>allowedGroups\<close> (a JavaScript
  \<open>Set\<close>, kept here as the list of its members in insertion order, which is what
  \<open>Array.from\<close> yields) and the flag \<open>isBotReady\<close>. The file system is part of the
  state: \<open>files\<close> maps a path to its content, \<open>dirs\<close> holds the directories. Every call
  on a collaborator (the messaging client, the HTTP client) is appended to \<open>trace\<close>.
\<close>

datatype content =
    Bytes string           \<comment> \<open>raw bytes\<close>
  | Base64Decoded string   \<comment> \<open>\<open>Buffer.from(data, 'base64')\<close>: the bytes that \<open>data\<close> encodes\<close>
  | JsonArray "string list" \<comment> \<open>\<open>JSON.stringify\<close> of an array of strings\<close>

datatype effect =
    GetChat                          \<comment> \<open>\<open>message.getChat()\<close>\<close>
  | GetContact                       \<comment> \<open>\<open>message.getContact()\<close>\<close>
  | Reply string                     \<comment> \<open>\<open>message.reply(text)\<close>\<close>
  | SendMedia string string string   \<comment> \<open>\<open>client.sendMessage(to, media of path, caption)\<close>\<close>
  | HttpGet string                   \<comment> \<open>the \<open>axios\<close> GET request\<close>
  | GetQuotedMessage                 \<comment> \<open>\<open>message.getQuotedMessage()\<close>\<close>
  | DownloadMedia                    \<comment> \<open>\<open>quotedMsg.downloadMedia()\<close>\<close>
  | GetChatById string               \<comment> \<open>\<open>client.getChatById(id)\<close>\<close>

record world =
  allowedGroups :: "string list"
  isBotReady :: bool
  files :: "string \<rightharpoonup> content"
  dirs :: "string set"
  trace :: "effect list"

text \<open>
  An inbound message, with what its accessors return: \<open>message.from\<close>, \<open>message.body\<close>,
  the chat of \<open>getChat()\<close> (\<open>chat.id._serialized\<close>, \<open>chat.isGroup\<close>),
  \<open>message.hasQuotedMsg\<close> and the \<open>hasMedia\<close> of the quoted message.
\<close>

record message =
  msg_from :: string
  body :: string
  chat_id :: string
  chat_isGroup :: bool
  hasQuotedMsg :: bool
  quoted_hasMedia :: bool

text \<open>
  What the outside world answers during one run of the message handler. These are
  the outcomes that the \<open>try\<close>/\<open>catch\<close> blocks and event listeners of bot.js tell apart.
  The calls \<open>message.reply\<close>, \<open>getChat\<close>, \<open>getContact\<close>, \<open>getQuotedMessage\<close>,
  \<open>getChatById\<close>, \<open>mkdirSync\<close> and \<open>unlinkSync\<close> of an existing file are taken to
  succeed, and the response stream to deliver its whole body unless the writer fails.
\<close>

datatype http_result =
    HttpError                        \<comment> \<open>\<open>axios\<close> rejects\<close>
  | HttpOk "string option" string    \<comment> \<open>the content-disposition header, the body\<close>

datatype stream_result =
    StreamFinish                     \<comment> \<open>the writer emits \<open>finish\<close>\<close>
  | StreamOpenError                  \<comment> \<open>the writer emits \<open>error\<close>, the file could not be opened\<close>
  | StreamWriteError nat             \<comment> \<open>the writer emits \<open>error\<close> after that many bytes were written\<close>

datatype send_result =
    FromFilePathThrows               \<comment> \<open>\<open>MessageMedia.fromFilePath\<close> throws\<close>
  | SendRejects                      \<comment> \<open>\<open>client.sendMessage\<close> rejects\<close>
  | SendOk

datatype media_result =
    DownloadThrows                   \<comment> \<open>\<open>downloadMedia\<close> rejects\<close>
  | DownloadNone                     \<comment> \<open>\<open>downloadMedia\<close> resolves to nothing\<close>
  | Media string string              \<comment> \<open>\<open>media.mimetype\<close>, \<open>media.data\<close> (base64)\<close>

record env =
  env_PORT :: "string option"        \<comment> \<open>\<open>process.env.PORT\<close>\<close>
  env_BASE_URL :: "string option"    \<comment> \<open>\<open>process.env.BASE_URL\<close>\<close>
  now :: nat                         \<comment> \<open>\<open>Date.now()\<close>\<close>
  http :: http_result
  stream :: stream_result
  send :: send_result
  media :: media_result
  uploadWriteOk :: bool              \<comment> \<open>\<open>writeFileSync\<close> into \<open>uploads\<close> does not throw\<close>
  saveWriteOk :: bool                \<comment> \<open>\<open>writeFileSync\<close> of allowed-groups.json does not throw\<close>
  chatName :: "string \<Rightarrow> string"   \<comment> \<open>the \<open>name\<close> of the chat that \<open>getChatById\<close> returns\<close>

subsection \<open>Primitive operations\<close>

definition OWNER_NUMBER :: string where
  "OWNER_NUMBER = ''+94760761047''"

definition call :: "effect \<Rightarrow> world \<Rightarrow> world" where
  "call x s = s\<lparr>trace := trace s @ [x]\<rparr>"

definition reply :: "string \<Rightarrow> world \<Rightarrow> world" where
  "reply text s = call (Reply text) s"

text \<open>\<open>Set.prototype.add\<close>, \<open>delete\<close>, \<open>has\<close> and \<open>size\<close>.\<close>

definition set_add :: "string \<Rightarrow> string list \<Rightarrow> string list" where
  "set_add g gs = (if g \<in> set gs then gs else gs @ [g])"

definition set_delete :: "string \<Rightarrow> string list \<Rightarrow> string list" where
  "set_delete g gs = filter (\<lambda>x. x \<noteq> g) gs"

definition set_has :: "string list \<Rightarrow> string \<Rightarrow> bool" where
  "set_has gs g = (g \<in> set gs)"

definition set_size :: "string list \<Rightarrow> nat" where
  "set_size gs = length gs"

text \<open>\<open>fs.existsSync\<close>, \<open>fs.mkdirSync\<close>, a completed file write, \<open>fs.unlinkSync\<close>.\<close>

definition existsSync :: "string \<Rightarrow> world \<Rightarrow> bool" where
  "existsSync p s = (case files s p of Some c \<Rightarrow> True | None \<Rightarrow> p \<in> dirs s)"

definition mkdirSync :: "string \<Rightarrow> world \<Rightarrow> world" where
  "mkdirSync p s = s\<lparr>dirs := insert p (dirs s)\<rparr>"

definition writeFile :: "string \<Rightarrow> content \<Rightarrow> world \<Rightarrow> world" where
  "writeFile p c s = s\<lparr>files := (files s)(p \<mapsto> c)\<rparr>"

definition unlinkSync :: "string \<Rightarrow> world \<Rightarrow> world" where
  "unlinkSync p s = s\<lparr>files := (files s)(p := None)\<rparr>"

text \<open>\<open>a || b\<close> on an environment variable: unset and empty both fall through to \<open>b\<close>.\<close>

definition or_default :: "string option \<Rightarrow> string \<Rightarrow> string" where
  "or_default v d = (case v of None \<Rightarrow> d | Some x \<Rightarrow> if x = [] then d else x)"

text \<open>\<open>const port = process.env.PORT || 3000\<close>, as a template literal prints it.\<close>

definition port :: "env \<Rightarrow> string" where
  "port e = or_default (env_PORT e) ''3000''"

section \<open>The command functions\<close>

text \<open>\<open>saveAllowedGroups\<close>: a write that throws is caught and only logged.\<close>

definition saveAllowedGroups :: "env \<Rightarrow> world \<Rightarrow> world" where
  "saveAllowedGroups e s =
     (if saveWriteOk e
        then writeFile ''allowed-groups.json'' (JsonArray (allowedGroups s)) s
      else s)"

definition helpText :: "bool \<Rightarrow> string" where
  "helpText isOwner =
     ''*Bot Commands:*'' @ nl @ nl @
     ''*!download <url>* - Download file from URL'' @ nl @
     ''*!upload* - Reply to a file with this command to get a direct download link'' @ nl @
     (if isOwner then
        nl @ ''*Owner Commands:*'' @ nl @ nl @
        ''*!addgroup* - Add current group to allowed list'' @ nl @
        ''*!removegroup* - Remove current group from allowed list'' @ nl @
        ''*!listgroups* - List all allowed groups'' @ nl @
        ''*!status* - Show bot status'' @ nl
      else [])"

definition showHelp :: "bool \<Rightarrow> world \<Rightarrow> world" where
  "showHelp isOwner s = reply (helpText isOwner) s"

definition addGroup :: "env \<Rightarrow> message \<Rightarrow> world \<Rightarrow> world" where
  "addGroup e m s =
     (let s1 = call GetChat s in
      if chat_isGroup m then
        let s2 = s1\<lparr>allowedGroups := set_add (chat_id m) (allowedGroups s1)\<rparr>;
            s3 = reply ''This group has been added to the allowed list.'' s2
        in saveAllowedGroups e s3
      else reply ''This command can only be used in groups.'' s1)"

definition removeGroup :: "env \<Rightarrow> message \<Rightarrow> world \<Rightarrow> world" where
  "removeGroup e m s =
     (let s1 = call GetChat s in
      if chat_isGroup m then
        let s2 = s1\<lparr>allowedGroups := set_delete (chat_id m) (allowedGroups s1)\<rparr>;
            s3 = reply ''This group has been removed from the allowed list.'' s2
        in saveAllowedGroups e s3
      else reply ''This command can only be used in groups.'' s1)"

text \<open>The \<open>for ... of\<close> loop of \<open>listGroups\<close> over the members of the set.\<close>

fun listLoop :: "env \<Rightarrow> string list \<Rightarrow> string \<Rightarrow> world \<Rightarrow> string \<times> world" where
  "listLoop e [] groupList s = (groupList, s)"
| "listLoop e (groupId # rest) groupList s =
     listLoop e rest (groupList @ ''- '' @ chatName e groupId @ nl) (call (GetChatById groupId) s)"

definition listGroups :: "env \<Rightarrow> world \<Rightarrow> world" where
  "listGroups e s =
     (if set_size (allowedGroups s) = 0 then reply ''No groups are currently allowed.'' s
      else
        let (groupList, s1) = listLoop e (allowedGroups s) (''*Allowed Groups:*'' @ nl @ nl) s
        in reply groupList s1)"

subsection \<open>\<open>downloadFile\<close>\<close>

definition downloadFailed :: string where
  "downloadFailed = ''Failed to download the file. Please check the URL and try again.''"

text \<open>The filename: the last segment of the URL, or the header's match when there is one.\<close>

definition downloadFilename :: "string \<Rightarrow> string option \<Rightarrow> string" where
  "downloadFilename url contentDisposition =
     (let filename = pop (js_split CHR ''/'' url) in
      case contentDisposition of
        None \<Rightarrow> filename
      | Some cd \<Rightarrow>
          if cd = [] then filename
          else (case filenameMatch cd of None \<Rightarrow> filename | Some f \<Rightarrow> f))"

text \<open>The listener on the writer's \<open>finish\<close> event.\<close>

definition onFinish :: "env \<Rightarrow> message \<Rightarrow> string \<Rightarrow> string \<Rightarrow> world \<Rightarrow> world" where
  "onFinish e m filePath filename s =
     (let sendFailed = (\<lambda>s0.
            let s1 = reply ''Failed to send the file. It might be too large or in an unsupported format.'' s0
            in if existsSync filePath s1 then unlinkSync filePath s1 else s1);
          sent = call (SendMedia (msg_from m) filePath (''Here's your downloaded file: '' @ filename)) s
      in case send e of
           FromFilePathThrows \<Rightarrow> sendFailed s
         | SendRejects \<Rightarrow> sendFailed sent
         | SendOk \<Rightarrow> unlinkSync filePath sent)"

text \<open>The listener on the writer's \<open>error\<close> event.\<close>

definition onError :: "world \<Rightarrow> world" where
  "onError s = reply downloadFailed s"

definition downloadFile :: "env \<Rightarrow> message \<Rightarrow> string list \<Rightarrow> world \<Rightarrow> world" where
  "downloadFile e m args s =
     (if length args = 0 then reply ''Please provide a URL. Usage: !download <url>'' s
      else
        let url = hd args;
            s1 = reply ''Downloading file...'' s;
            s2 = call (HttpGet url) s1
        in case http e of
             HttpError \<Rightarrow> reply downloadFailed s2
           | HttpOk contentDisposition data \<Rightarrow>
               let filename = downloadFilename url contentDisposition;
                   tempDir = ''temp'';
                   s3 = (if \<not> existsSync tempDir s2 then mkdirSync tempDir s2 else s2);
                   filePath = path_join tempDir filename
               in case stream e of
                    StreamFinish \<Rightarrow>
                      onFinish e m filePath filename (writeFile filePath (Bytes data) s3)
                  | StreamOpenError \<Rightarrow> onError s3
                  | StreamWriteError n \<Rightarrow>
                      onError (writeFile filePath (Bytes (take n data)) s3))"

subsection \<open>\<open>uploadFile\<close>\<close>

text \<open>\<open>media.mimetype.split('/')[1]\<close>, as the template literal prints it.\<close>

definition extension :: "string \<Rightarrow> string" where
  "extension mimetype =
     (let parts = js_split CHR ''/'' mimetype in
      if 1 < length parts then parts ! 1 else ''undefined'')"

definition uploadFilename :: "env \<Rightarrow> string \<Rightarrow> string" where
  "uploadFilename e mimetype = ''file-'' @ string_of_nat (now e) @ ''.'' @ extension mimetype"

definition baseUrl :: "env \<Rightarrow> string" where
  "baseUrl e = or_default (env_BASE_URL e) (''http://localhost:'' @ port e)"

definition directLink :: "env \<Rightarrow> string \<Rightarrow> string" where
  "directLink e filename = baseUrl e @ ''/uploads/'' @ filename"

definition uploadFile :: "env \<Rightarrow> message \<Rightarrow> world \<Rightarrow> world" where
  "uploadFile e m s =
     (if \<not> hasQuotedMsg m then reply ''Please reply to a file with this command to upload it.'' s
      else
        let s1 = call GetQuotedMessage s in
        if \<not> quoted_hasMedia m then reply ''The quoted message does not contain a file.'' s1
        else
          let s2 = reply ''Processing file...'' s1;
              s3 = call DownloadMedia s2
          in case media e of
               DownloadThrows \<Rightarrow> reply ''Failed to upload the file.'' s3
             | DownloadNone \<Rightarrow> reply ''Failed to download the file.'' s3
             | Media mimetype data \<Rightarrow>
                 let filename = uploadFilename e mimetype;
                     filePath = path_join ''uploads'' filename
                 in if uploadWriteOk e then
                      reply (''File uploaded successfully!'' @ nl @ ''Direct download link: '' @
                             directLink e filename)
                        (writeFile filePath (Base64Decoded data) s3)
                    else reply ''Failed to upload the file.'' s3)"

subsection \<open>\<open>showStatus\<close>\<close>

definition statusMessage :: "world \<Rightarrow> string" where
  "statusMessage s =
     ''*Bot Status:* '' @ (if isBotReady s then ''Online'' else ''Offline'') @ nl @ nl @
     ''*Allowed Groups:* '' @ string_of_nat (set_size (allowedGroups s)) @ nl"

definition showStatus :: "bool \<Rightarrow> world \<Rightarrow> world" where
  "showStatus isOwner s = (if \<not> isOwner then s else reply (statusMessage s) s)"

section \<open>The message handler\<close>

text \<open>\<open>message.body.split(' ')[0].substring(1).toLowerCase()\<close>.\<close>

definition parseCommand :: "string \<Rightarrow> string" where
  "parseCommand b = toLowerCase (substring1 (hd (js_split CHR '' '' b)))"

text \<open>\<open>message.body.split(' ').slice(1)\<close>.\<close>

definition parseArgs :: "string \<Rightarrow> string list" where
  "parseArgs b = drop 1 (js_split CHR '' '' b)"

text \<open>The \<open>switch\<close> on the command name.\<close>

definition dispatch :: "env \<Rightarrow> message \<Rightarrow> bool \<Rightarrow> string \<Rightarrow> string list \<Rightarrow> world \<Rightarrow> world" where
  "dispatch e m isOwner command args s =
     (if command = ''help'' then showHelp isOwner s
      else if command = ''addgroup'' then (if isOwner then addGroup e m s else s)
      else if command = ''removegroup'' then (if isOwner then removeGroup e m s else s)
      else if command = ''listgroups'' then (if isOwner then listGroups e s else s)
      else if command = ''download'' then downloadFile e m args s
      else if command = ''upload'' then uploadFile e m s
      else if command = ''status'' then showStatus isOwner s
      else reply ''Unknown command. Type !help for available commands.'' s)"

text \<open>The listener of \<open>client.on('message', ...)\<close>.\<close>

definition onMessage :: "env \<Rightarrow> message \<Rightarrow> world \<Rightarrow> world" where
  "onMessage e m s =
     (if msg_from m = ''status@broadcast'' then s
      else
        let s1 = call GetContact (call GetChat s);
            isOwner = (msg_from m = OWNER_NUMBER);
            isAllowedGroup = set_has (allowedGroups s1) (chat_id m)
        in if \<not> isOwner \<and> \<not> isAllowedGroup then s1
           else if startsWith (body m) ''!'' then
             dispatch e m isOwner (parseCommand (body m)) (parseArgs (body m)) s1
           else s1)"

section \<open>The specification's wording, for comparison\<close>

text \<open>
  The specification describes the parse by whitespace-separated tokens: the command
  name is the lowercase token from just after the marker up to the first whitespace
  character, the arguments are the remaining whitespace-separated tokens. The
  definitions below follow these words, not the code.
\<close>

definition isWhitespace :: "char \<Rightarrow> bool" where
  "isWhitespace c = (c \<in> set [CHR '' '', CHR 0x09, CHR 0x0A, CHR 0x0B, CHR 0x0C, CHR 0x0D])"

fun spec_tokens :: "string \<Rightarrow> string \<Rightarrow> string list" where
  "spec_tokens cur [] = (if cur = [] then [] else [cur])"
| "spec_tokens cur (c # cs) =
     (if isWhitespace c then (if cur = [] then spec_tokens [] cs else cur # spec_tokens [] cs)
      else spec_tokens (cur @ [c]) cs)"

definition spec_commandName :: "string \<Rightarrow> string" where
  "spec_commandName b = toLowerCase (takeWhile (\<lambda>c. \<not> isWhitespace c) (drop 1 b))"

definition spec_positionalArgs :: "string \<Rightarrow> string list" where
  "spec_positionalArgs b = spec_tokens [] (dropWhile (\<lambda>c. \<not> isWhitespace c) (drop 1 b))"

text \<open>
  The specification's base URL: the configured \<open>BASE_URL\<close>, or, when it is unset,
  \<open>http://localhost:<port>\<close> with the port defaulting to 3000.
\<close>

definition spec_baseUrl :: "env \<Rightarrow> string" where
  "spec_baseUrl e =
     (case env_BASE_URL e of
        Some b \<Rightarrow> b
      | None \<Rightarrow> ''http://localhost:'' @ (case env_PORT e of Some p \<Rightarrow> p | None \<Rightarrow> ''3000''))"

section \<open>Concrete runs\<close>

definition world0 :: world where
  "world0 = \<lparr>allowedGroups = [], isBotReady = True, files = Map.empty,
             dirs = {''uploads''}, trace = []\<rparr>"

definition env0 :: env where
  "env0 = \<lparr>env_PORT = None, env_BASE_URL = None, now = 1700000000000,
           http = HttpOk None ''hello'', stream = StreamFinish, send = SendOk,
           media = Media ''image/png'' ''aGVsbG8='', uploadWriteOk = True,
           saveWriteOk = True, chatName = (\<lambda>g. ''Family'')\<rparr>"

definition group0 :: string where
  "group0 = ''120363000000000000@g.us''"

text \<open>A message of the owner in the group chat \<open>group0\<close>.\<close>

definition ownerMsg :: "string \<Rightarrow> message" where
  "ownerMsg b = \<lparr>msg_from = OWNER_NUMBER, body = b, chat_id = group0,
                 chat_isGroup = True, hasQuotedMsg = False, quoted_hasMedia = False\<rparr>"

text \<open>A message of somebody else in the group chat \<open>group0\<close>.\<close>

definition memberMsg :: "string \<Rightarrow> message" where
  "memberMsg b = \<lparr>msg_from = group0, body = b, chat_id = group0,
                  chat_isGroup = True, hasQuotedMsg = False, quoted_hasMedia = False\<rparr>"

text \<open>A direct message of somebody who is not the owner.\<close>

definition strangerMsg :: "string \<Rightarrow> message" where
  "strangerMsg b = \<lparr>msg_from = ''15550001111@c.us'', body = b, chat_id = ''15550001111@c.us'',
                    chat_isGroup = False, hasQuotedMsg = False, quoted_hasMedia = False\<rparr>"

section \<open>Facts about the string primitives\<close>

lemmas handler_defs = onMessage_def call_def reply_def set_has_def Let_def

lemmas parse_eval = js_split_def startsWith_def parseCommand_def parseArgs_def
  toLowerCase_def toLowerChar_def substring1_def

lemma splitFrom_not_Nil: "splitFrom c p s \<noteq> []"
  by (induction s arbitrary: p) auto

lemma hd_splitFrom: "hd (splitFrom c p s) = p @ takeWhile (\<lambda>x. x \<noteq> c) s"
  by (induction s arbitrary: p) auto

lemma tl_splitFrom:
  "tl (splitFrom c p s) =
     (if c \<in> set s then splitFrom c [] (tl (dropWhile (\<lambda>x. x \<noteq> c) s)) else [])"
  by (induction s arbitrary: p) auto

lemma joinWith_Cons: "ys \<noteq> [] \<Longrightarrow> joinWith sep (x # ys) = x @ sep @ joinWith sep ys"
  by (cases ys) auto

text \<open>Joining the pieces with the separator gives the string back.\<close>

lemma joinWith_splitFrom: "joinWith [c] (splitFrom c p s) = p @ s"
  by (induction s arbitrary: p) (auto simp add: joinWith_Cons splitFrom_not_Nil)

text \<open>No piece contains the separator.\<close>

lemma splitFrom_pieces:
  "c \<notin> set p \<Longrightarrow> a \<in> set (splitFrom c p s) \<Longrightarrow> c \<notin> set a"
proof (induction s arbitrary: p)
  case Nil
  then show ?case by simp
next
  case (Cons x xs)
  show ?case
  proof (cases "x = c")
    case True
    with Cons.prems have "a = p \<or> a \<in> set (splitFrom c [] xs)" by simp
    then show ?thesis using Cons.prems(1) Cons.IH [of "[]"] by auto
  next
    case False
    with Cons.prems have "a \<in> set (splitFrom c (p @ [x]) xs)" by simp
    moreover from False Cons.prems(1) have "c \<notin> set (p @ [x])" by auto
    ultimately show ?thesis using Cons.IH by blast
  qed
qed

section \<open>Who may command the bot\<close>

text \<open>
  C10. A message whose sender field is \<open>status@broadcast\<close> makes the handler return at
  once: the state is unchanged and the trace is not extended, so no chat lookup, no
  authorization check, no dispatch and no reply take place, whoever the chat is and
  whatever the body says.
\<close>

theorem status_broadcast_ignored:
  assumes "msg_from m = ''status@broadcast''"
  shows "onMessage e m s = s"
  using assms by (simp add: onMessage_def)

theorem status_broadcast_ignored_witness:
  "onMessage env0 ((ownerMsg ''!status'')\<lparr>msg_from := ''status@broadcast''\<rparr>)
     (world0\<lparr>allowedGroups := [group0]\<rparr>) = world0\<lparr>allowedGroups := [group0]\<rparr>"
  using status_broadcast_ignored
    [of "(ownerMsg ''!status'')\<lparr>msg_from := ''status@broadcast''\<rparr>" env0
        "world0\<lparr>allowedGroups := [group0]\<rparr>"]
  by simp

text \<open>
  C1. When the sender is not the owner and the chat is not in the allow-list, the
  handler does nothing beyond looking up the chat and the contact: no reply, no
  request, no change of the allow-list or of the files, whatever the body is. Hence a
  command action happens only for the owner or in an allow-listed chat.
\<close>

theorem unauthorized_sender_no_action:
  assumes "msg_from m \<noteq> OWNER_NUMBER" and "chat_id m \<notin> set (allowedGroups s)"
  shows "onMessage e m s =
           (if msg_from m = ''status@broadcast'' then s
            else s\<lparr>trace := trace s @ [GetChat, GetContact]\<rparr>)"
  using assms by (simp add: handler_defs)

theorem unauthorized_sender_no_action_witness:
  "onMessage env0 (strangerMsg ''!download https://example.com/a.txt'') world0 =
     world0\<lparr>trace := [GetChat, GetContact]\<rparr>"
  using unauthorized_sender_no_action
    [of "strangerMsg ''!download https://example.com/a.txt''" world0 env0]
  by (simp add: strangerMsg_def world0_def OWNER_NUMBER_def)

text \<open>
  C5. A body that does not start with the marker \<open>!\<close> triggers nothing: the handler
  at most looks up the chat and the contact, and sends no reply, for every sender.
\<close>

theorem no_marker_no_action:
  assumes "\<not> startsWith (body m) ''!''"
  shows "onMessage e m s =
           (if msg_from m = ''status@broadcast'' then s
            else s\<lparr>trace := trace s @ [GetChat, GetContact]\<rparr>)"
  using assms by (simp add: handler_defs)

theorem no_marker_no_action_witness:
  "onMessage env0 (ownerMsg ''status'') world0 = world0\<lparr>trace := [GetChat, GetContact]\<rparr>"
  using no_marker_no_action [of "ownerMsg ''status''" env0 world0]
  by (simp add: ownerMsg_def world0_def OWNER_NUMBER_def startsWith_def)

section \<open>Download\<close>



text \<open>
  The two branches of the \<open>finish\<close> listener remove the temporary file: after the
  send, and after a failure to build or send the attachment.
\<close>

lemma onFinish_removes_temp_file: "files (onFinish e m filePath filename s) filePath = None"
  by (cases "send e")
    (auto simp add: onFinish_def unlinkSync_def existsSync_def call_def reply_def Let_def
      split: option.splits)

lemma download_finish_removes_temp_file:
  assumes "args \<noteq> []" and "http e = HttpOk cd data" and "stream e = StreamFinish"
  shows "files (downloadFile e m args s)
           (path_join ''temp'' (downloadFilename (hd args) cd)) = None"
  using assms by (simp add: downloadFile_def Let_def onFinish_removes_temp_file)

text \<open>The \<open>error\<close> listener only replies: what the writer left on disk stays there.\<close>

lemma download_write_error_keeps_temp_file:
  assumes "args \<noteq> []" and "http e = HttpOk cd data" and "stream e = StreamWriteError n"
  shows "files (downloadFile e m args s)
           (path_join ''temp'' (downloadFilename (hd args) cd)) = Some (Bytes (take n data))"
  using assms
  by (simp add: downloadFile_def Let_def onError_def reply_def call_def writeFile_def
      mkdirSync_def)

text \<open>
  C2. The specification asks for the temporary file to be gone on every exit path. On
  the path where the writer fails after the file was created (a full disk, say), the
  \<open>error\<close> listener replies and leaves the file: after
  \<open>!download https://example.com/a.txt\<close> with a write error after two bytes, the file
  \<open>temp/a.txt\<close> is still there, holding those two bytes.
\<close>

theorem download_write_error_leaves_temp_file:
  "onMessage (env0\<lparr>stream := StreamWriteError 2\<rparr>)
       (ownerMsg ''!download https://example.com/a.txt'') world0 =
     world0\<lparr>files := [''temp/a.txt'' \<mapsto> Bytes ''he''],
       dirs := {''temp'', ''uploads''},
       trace := [GetChat, GetContact, Reply ''Downloading file...'',
         HttpGet ''https://example.com/a.txt'',
         Reply ''Failed to download the file. Please check the URL and try again.'']\<rparr>"
  by (simp add: ownerMsg_def env0_def world0_def OWNER_NUMBER_def parse_eval
      handler_defs dispatch_def downloadFile_def downloadFilename_def pop_def onError_def
      downloadFailed_def existsSync_def mkdirSync_def writeFile_def
      path_join_def normalize_def)

section \<open>Upload\<close>

text \<open>
  C6. An authorized \<open>upload\<close> command that is not a reply to a message is answered
  with the "reply to a file" message, and one whose quoted message has no attachment
  with "The quoted message does not contain a file."; in both cases nothing but the
  trace changes, so no file is written.
\<close>

theorem upload_without_file:
  assumes "msg_from m = OWNER_NUMBER \<or> chat_id m \<in> set (allowedGroups s)"
    and "msg_from m \<noteq> ''status@broadcast''"
    and "startsWith (body m) ''!''"
    and "parseCommand (body m) = ''upload''"
  shows "(\<not> hasQuotedMsg m \<longrightarrow>
            onMessage e m s =
              s\<lparr>trace := trace s @ [GetChat, GetContact,
                   Reply ''Please reply to a file with this command to upload it.'']\<rparr>) \<and>
         (hasQuotedMsg m \<and> \<not> quoted_hasMedia m \<longrightarrow>
            onMessage e m s =
              s\<lparr>trace := trace s @ [GetChat, GetContact, GetQuotedMessage,
                   Reply ''The quoted message does not contain a file.'']\<rparr>)"
  using assms by (auto simp add: handler_defs dispatch_def uploadFile_def)

theorem upload_without_file_witness:
  "onMessage env0 (ownerMsg ''!upload'') world0 =
     world0\<lparr>trace := [GetChat, GetContact,
       Reply ''Please reply to a file with this command to upload it.'']\<rparr> \<and>
   onMessage env0 ((ownerMsg ''!upload'')\<lparr>hasQuotedMsg := True\<rparr>) world0 =
     world0\<lparr>trace := [GetChat, GetContact, GetQuotedMessage,
       Reply ''The quoted message does not contain a file.'']\<rparr>"
  using upload_without_file [of "ownerMsg ''!upload''" world0 env0]
    upload_without_file [of "(ownerMsg ''!upload'')\<lparr>hasQuotedMsg := True\<rparr>" world0 env0]
  by (simp add: ownerMsg_def world0_def OWNER_NUMBER_def parse_eval)

text \<open>
  For a MIME type of the usual form \<open>type/subtype\<close> the extension is the subtype.
\<close>

lemma extension_subtype:
  assumes "CHR ''/'' \<notin> set ty" and "CHR ''/'' \<notin> set sub"
  shows "extension (ty @ ''/'' @ sub) = sub"
proof -
  have hd_tl: "xs \<noteq> [] \<Longrightarrow> tl xs \<noteq> [] \<Longrightarrow> 1 < length xs \<and> xs ! 1 = hd (tl xs)" for xs :: "string list"
    by (cases xs; cases "tl xs") auto
  let ?xs = "splitFrom CHR ''/'' [] (ty @ ''/'' @ sub)"
  have drop: "dropWhile (\<lambda>x. x \<noteq> CHR ''/'') (ty @ ''/'' @ sub) = ''/'' @ sub"
    using assms(1) by (induction ty) auto
  have "tl ?xs = splitFrom CHR ''/'' [] sub"
    using drop by (simp add: tl_splitFrom)
  moreover have "hd (splitFrom CHR ''/'' [] sub) = sub"
    using assms(2) by (auto simp add: hd_splitFrom takeWhile_eq_all_conv)
  ultimately have "1 < length ?xs \<and> ?xs ! 1 = sub"
    using hd_tl [of ?xs] splitFrom_not_Nil [of "CHR ''/''" "[]"] by simp
  then show ?thesis
    by (simp add: extension_def js_split_def)
qed

text \<open>
  C9, as the code has it. A successful upload writes the decoded attachment to
  \<open>uploads/file-<Date.now()>.<extension>\<close> and replies with the link
  \<open><base>/uploads/<that filename>\<close>, where the base is \<open>BASE_URL\<close> when it is set
  and not empty and \<open>http://localhost:<port>\<close> otherwise, and the port is \<open>PORT\<close>
  when it is set and not empty and 3000 otherwise.
\<close>

theorem upload_link:
  assumes "msg_from m = OWNER_NUMBER \<or> chat_id m \<in> set (allowedGroups s)"
    and "msg_from m \<noteq> ''status@broadcast''"
    and "startsWith (body m) ''!''"
    and "parseCommand (body m) = ''upload''"
    and "hasQuotedMsg m" and "quoted_hasMedia m"
    and "media e = Media mimetype data"
    and "uploadWriteOk e"
  shows "onMessage e m s =
           s\<lparr>files := (files s)
                (path_join ''uploads''
                   (''file-'' @ string_of_nat (now e) @ ''.'' @ extension mimetype)
                 \<mapsto> Base64Decoded data),
             trace := trace s @ [GetChat, GetContact, GetQuotedMessage,
                Reply ''Processing file...'', DownloadMedia,
                Reply (''File uploaded successfully!'' @ nl @ ''Direct download link: '' @
                  (case env_BASE_URL e of
                     Some b \<Rightarrow> if b = [] then ''http://localhost:'' @ port e else b
                   | None \<Rightarrow> ''http://localhost:'' @ port e) @
                  ''/uploads/'' @
                  ''file-'' @ string_of_nat (now e) @ ''.'' @ extension mimetype)]\<rparr> \<and>
         port e = (case env_PORT e of Some p \<Rightarrow> if p = [] then ''3000'' else p | None \<Rightarrow> ''3000'')"
  using assms
  by (auto simp add: handler_defs dispatch_def uploadFile_def writeFile_def directLink_def
      baseUrl_def or_default_def uploadFilename_def port_def split: option.splits)

theorem upload_link_witness:
  "onMessage env0 ((ownerMsg ''!upload'')\<lparr>hasQuotedMsg := True, quoted_hasMedia := True\<rparr>) world0 =
     world0\<lparr>files := [''uploads/file-1700000000000.png'' \<mapsto> Base64Decoded ''aGVsbG8=''],
       trace := [GetChat, GetContact, GetQuotedMessage,
         Reply ''Processing file...'', DownloadMedia,
         Reply (''File uploaded successfully!'' @ nl @
           ''Direct download link: http://localhost:3000/uploads/file-1700000000000.png'')]\<rparr> \<and>
   last (trace (onMessage (env0\<lparr>env_BASE_URL := Some ''https://files.example.org''\<rparr>)
       ((ownerMsg ''!upload'')\<lparr>hasQuotedMsg := True, quoted_hasMedia := True\<rparr>) world0)) =
     Reply (''File uploaded successfully!'' @ nl @
       ''Direct download link: https://files.example.org/uploads/file-1700000000000.png'')"
  using upload_link [of "(ownerMsg ''!upload'')\<lparr>hasQuotedMsg := True, quoted_hasMedia := True\<rparr>"
      world0 env0 "''image/png''" "''aGVsbG8=''"]
    upload_link [of "(ownerMsg ''!upload'')\<lparr>hasQuotedMsg := True, quoted_hasMedia := True\<rparr>"
      world0 "env0\<lparr>env_BASE_URL := Some ''https://files.example.org''\<rparr>"
      "''image/png''" "''aGVsbG8=''"]
  by (simp add: ownerMsg_def world0_def env0_def OWNER_NUMBER_def parse_eval
      string_of_nat.simps digit_def extension_def path_join_def normalize_def)

text \<open>
  With \<open>BASE_URL\<close> set to the empty string, the link of a successful upload starts
  with \<open>http://localhost:3000\<close>, while the configured value joined with the uploads
  path and the filename is \<open>/uploads/file-1700000000000.png\<close>.
\<close>

theorem upload_link_empty_base_url_counterexample:
  "last (trace (onMessage (env0\<lparr>env_BASE_URL := Some []\<rparr>)
       ((ownerMsg ''!upload'')\<lparr>hasQuotedMsg := True, quoted_hasMedia := True\<rparr>) world0)) =
     Reply (''File uploaded successfully!'' @ nl @
       ''Direct download link: http://localhost:3000/uploads/file-1700000000000.png'') \<and>
   spec_baseUrl (env0\<lparr>env_BASE_URL := Some []\<rparr>) @ ''/uploads/'' @
     uploadFilename (env0\<lparr>env_BASE_URL := Some []\<rparr>) ''image/png'' =
     ''/uploads/file-1700000000000.png''"
  by (simp add: ownerMsg_def world0_def env0_def OWNER_NUMBER_def parse_eval
      string_of_nat.simps digit_def extension_def path_join_def normalize_def
      handler_defs dispatch_def uploadFile_def writeFile_def directLink_def
      baseUrl_def or_default_def uploadFilename_def port_def spec_baseUrl_def)

section \<open>The allow-list\<close>

text \<open>The list that stands for the \<open>Set\<close> never holds a member twice.\<close>

lemma set_add_distinct: "distinct gs \<Longrightarrow> distinct (set_add g gs)"
  by (simp add: set_add_def)

lemma set_delete_distinct: "distinct gs \<Longrightarrow> distinct (set_delete g gs)"
  by (simp add: set_delete_def)

lemma set_size_card: "distinct gs \<Longrightarrow> set_size gs = card (set gs)"
  by (simp add: set_size_def distinct_card)

lemma set_delete_absent: "g \<notin> set (set_delete g gs)"
  by (simp add: set_delete_def)




section \<open>Status\<close>

text \<open>
  C8. A \<open>status\<close> command of the owner is answered with one reply, which contains
  \<open>Online\<close> or \<open>Offline\<close> according to the readiness flag and the size of the
  allow-list. A \<open>status\<close> command of anybody else, from an allow-listed group or
  not, gets no reply.
\<close>

theorem status_owner_only:
  assumes "startsWith (body m) ''!''" and "parseCommand (body m) = ''status''"
  shows "(msg_from m = OWNER_NUMBER \<longrightarrow>
            onMessage e m s =
              s\<lparr>trace := trace s @ [GetChat, GetContact, Reply (statusMessage s)]\<rparr> \<and>
            statusMessage s =
              ''*Bot Status:* '' @ (if isBotReady s then ''Online'' else ''Offline'') @ nl @ nl @
              ''*Allowed Groups:* '' @ string_of_nat (length (allowedGroups s)) @ nl \<and>
            sublist (if isBotReady s then ''Online'' else ''Offline'') (statusMessage s) \<and>
            sublist (string_of_nat (length (allowedGroups s))) (statusMessage s)) \<and>
         (msg_from m \<noteq> OWNER_NUMBER \<longrightarrow>
            onMessage e m s =
              (if msg_from m = ''status@broadcast'' then s
               else s\<lparr>trace := trace s @ [GetChat, GetContact]\<rparr>))"
proof (intro conjI impI)
  assume "msg_from m = OWNER_NUMBER"
  with assms show "onMessage e m s =
      s\<lparr>trace := trace s @ [GetChat, GetContact, Reply (statusMessage s)]\<rparr>"
    by (simp add: handler_defs dispatch_def showStatus_def statusMessage_def OWNER_NUMBER_def)
next
  show "statusMessage s =
      ''*Bot Status:* '' @ (if isBotReady s then ''Online'' else ''Offline'') @ nl @ nl @
      ''*Allowed Groups:* '' @ string_of_nat (length (allowedGroups s)) @ nl"
    by (simp add: statusMessage_def set_size_def)
next
  have "statusMessage s =
      ''*Bot Status:* '' @ (if isBotReady s then ''Online'' else ''Offline'') @
      (nl @ nl @ ''*Allowed Groups:* '' @ string_of_nat (set_size (allowedGroups s)) @ nl)"
    by (simp add: statusMessage_def)
  then show "sublist (if isBotReady s then ''Online'' else ''Offline'') (statusMessage s)"
    unfolding sublist_def by blast
next
  have "statusMessage s =
      (''*Bot Status:* '' @ (if isBotReady s then ''Online'' else ''Offline'') @
       nl @ nl @ ''*Allowed Groups:* '') @ string_of_nat (length (allowedGroups s)) @ nl"
    by (simp add: statusMessage_def set_size_def)
  then show "sublist (string_of_nat (length (allowedGroups s))) (statusMessage s)"
    unfolding sublist_def by blast
next
  assume "msg_from m \<noteq> OWNER_NUMBER"
  with assms show "onMessage e m s =
      (if msg_from m = ''status@broadcast'' then s
       else s\<lparr>trace := trace s @ [GetChat, GetContact]\<rparr>)"
    by (simp add: handler_defs dispatch_def showStatus_def)
qed

theorem status_owner_only_witness:
  "onMessage env0 (ownerMsg ''!status'') (world0\<lparr>allowedGroups := [group0]\<rparr>) =
     world0\<lparr>allowedGroups := [group0], trace := [GetChat, GetContact,
       Reply (''*Bot Status:* Online'' @ nl @ nl @ ''*Allowed Groups:* 1'' @ nl)]\<rparr> \<and>
   onMessage env0 (memberMsg ''!status'') (world0\<lparr>allowedGroups := [group0]\<rparr>) =
     world0\<lparr>allowedGroups := [group0], trace := [GetChat, GetContact]\<rparr>"
  using status_owner_only [of "ownerMsg ''!status''" env0 "world0\<lparr>allowedGroups := [group0]\<rparr>"]
    status_owner_only [of "memberMsg ''!status''" env0 "world0\<lparr>allowedGroups := [group0]\<rparr>"]
  by (simp add: ownerMsg_def memberMsg_def world0_def group0_def OWNER_NUMBER_def parse_eval
      string_of_nat.simps digit_def)

section \<open>Parsing a command\<close>

text \<open>
  C7, as the code has it. For a body that starts with the marker, the command name is
  the lowercase of the text between the marker and the first space character, and the
  arguments are the pieces of the text after that first space, cut at every single
  space: there are none when the body has no space; otherwise they are not empty as a
  list, joining them with single spaces gives back the text after the first space, and
  no argument contains a space. Only the space character separates, and two spaces in
  a row or a space at the end give an empty argument.
\<close>

theorem parse_splits_at_single_spaces:
  assumes "startsWith b ''!''"
  shows "parseCommand b = toLowerCase (takeWhile (\<lambda>x. x \<noteq> CHR '' '') (tl b)) \<and>
         (CHR '' '' \<notin> set b \<longrightarrow> parseArgs b = []) \<and>
         (CHR '' '' \<in> set b \<longrightarrow>
            parseArgs b \<noteq> [] \<and>
            joinWith '' '' (parseArgs b) = tl (dropWhile (\<lambda>x. x \<noteq> CHR '' '') b)) \<and>
         (\<forall>a \<in> set (parseArgs b). CHR '' '' \<notin> set a)"
proof -
  from assms obtain rest where b: "b = CHR ''!'' # rest"
    by (cases b) (auto simp add: startsWith_def)
  have cmd: "parseCommand b = toLowerCase (takeWhile (\<lambda>x. x \<noteq> CHR '' '') (tl b))"
    by (simp add: b parseCommand_def js_split_def hd_splitFrom substring1_def)
  have args: "parseArgs b = tl (splitFrom CHR '' '' [] b)"
    by (simp add: parseArgs_def js_split_def drop_Suc)
  have none: "CHR '' '' \<notin> set b \<longrightarrow> parseArgs b = []"
    by (simp add: args tl_splitFrom)
  have some: "CHR '' '' \<in> set b \<longrightarrow>
      parseArgs b \<noteq> [] \<and>
      joinWith '' '' (parseArgs b) = tl (dropWhile (\<lambda>x. x \<noteq> CHR '' '') b)"
    by (simp add: args tl_splitFrom splitFrom_not_Nil joinWith_splitFrom)
  have "CHR '' '' \<notin> set a" if "a \<in> set (parseArgs b)" for a
  proof -
    from that have "a \<in> set (splitFrom CHR '' '' [] b)"
      unfolding args using splitFrom_not_Nil [of "CHR '' ''" "[]" b]
      by (cases "splitFrom CHR '' '' [] b") auto
    then show ?thesis
      using splitFrom_pieces [of "CHR '' ''" "[]" a b] by simp
  qed
  with cmd none some show ?thesis by blast
qed

theorem parse_splits_at_single_spaces_witness:
  "parseCommand ''!Download  https://example.com/a.txt'' = ''download'' \<and>
   parseArgs ''!Download  https://example.com/a.txt'' = [[], ''https://example.com/a.txt''] \<and>
   joinWith '' '' (parseArgs ''!Download  https://example.com/a.txt'') =
     '' https://example.com/a.txt''"
  using parse_splits_at_single_spaces [of "''!Download  https://example.com/a.txt''"]
  by (simp add: startsWith_def toLowerCase_def toLowerChar_def parseArgs_def js_split_def)

text \<open>
  Read by whitespace-separated tokens, \<open>!download  https://example.com/a.txt\<close> (two
  spaces) has the one argument \<open>https://example.com/a.txt\<close>, while the code's first
  argument is the empty string; and a tab after \<open>!help\<close> ends the command name for
  the specification but not for the code.
\<close>

theorem parse_whitespace_tokens_counterexample:
  "parseArgs ''!download  https://example.com/a.txt'' = [[], ''https://example.com/a.txt''] \<and>
   spec_positionalArgs ''!download  https://example.com/a.txt'' = [''https://example.com/a.txt''] \<and>
   parseCommand (''!help'' @ [CHR 0x09] @ ''me'') = ''help'' @ [CHR 0x09] @ ''me'' \<and>
   spec_commandName (''!help'' @ [CHR 0x09] @ ''me'') = ''help''"
  by (simp add: parse_eval spec_positionalArgs_def spec_commandName_def isWhitespace_def)

section \<open>The allow-list stays a set\<close>

text \<open>
  Only \<open>addGroup\<close> and \<open>removeGroup\<close> touch the allow-list, so every run of the
  handler keeps its members distinct, and \<open>set_size\<close> is the number of members.
\<close>

lemma listLoop_allowedGroups: "allowedGroups (snd (listLoop e gs acc s)) = allowedGroups s"
  by (induction gs arbitrary: acc s) (auto simp add: call_def)

lemma listGroups_allowedGroups: "allowedGroups (listGroups e s) = allowedGroups s"
proof (cases "listLoop e (allowedGroups s) (''*Allowed Groups:*'' @ nl @ nl) s")
  case (Pair groupList s1)
  with listLoop_allowedGroups [of e "allowedGroups s" "''*Allowed Groups:*'' @ nl @ nl" s]
  have "allowedGroups s1 = allowedGroups s" by simp
  with Pair show ?thesis
    by (simp add: listGroups_def reply_def call_def)
qed

lemma downloadFile_allowedGroups: "allowedGroups (downloadFile e m args s) = allowedGroups s"
  by (simp add: downloadFile_def onFinish_def onError_def reply_def call_def writeFile_def
      unlinkSync_def mkdirSync_def Let_def
      split: http_result.splits stream_result.splits send_result.splits)

lemma uploadFile_allowedGroups: "allowedGroups (uploadFile e m s) = allowedGroups s"
  by (simp add: uploadFile_def reply_def call_def writeFile_def Let_def
      split: media_result.splits)

lemma dispatch_distinct:
  "distinct (allowedGroups s) \<Longrightarrow> distinct (allowedGroups (dispatch e m isOwner command args s))"
  by (simp add: dispatch_def showHelp_def showStatus_def addGroup_def removeGroup_def
      saveAllowedGroups_def writeFile_def reply_def call_def Let_def
      listGroups_allowedGroups downloadFile_allowedGroups uploadFile_allowedGroups
      set_add_distinct set_delete_distinct)

lemma onMessage_distinct:
  "distinct (allowedGroups s) \<Longrightarrow> distinct (allowedGroups (onMessage e m s))"
  by (simp add: onMessage_def Let_def dispatch_distinct call_def)

end
